theory Spec2Isabelle
  imports Complex_Main "HOL-Library.Multiset" "HOL-Library.Monad_Syntax"
begin

section \<open>JavaScript numbers\<close>

text \<open>
  A JavaScript number is \<open>NaN\<close>, one of the two infinities, or a finite value. The finite
  doubles are embedded in the reals (\<open>Fin\<close>); the two zeros are one value.
\<close>

datatype jsnum = NaN | PInf | NInf | Fin real

fun isNaN :: "jsnum \<Rightarrow> bool" where
  "isNaN NaN = True"
| "isNaN _ = False"

fun neg :: "jsnum \<Rightarrow> jsnum" where
  "neg NaN = NaN"
| "neg PInf = NInf"
| "neg NInf = PInf"
| "neg (Fin r) = Fin (- r)"

text \<open>
  The arithmetic of the engine (\<open>*\<close>, \<open>/\<close>, \<open>+\<close>, \<open>-\<close> on doubles, the \<open>Math\<close> library,
  \<open>Number(x.toFixed(1))\<close> and the conversion of a string to a number) rounds its results
  and is not part of the repository: the code is modelled over any such arithmetic,
  given as a record of operations.
\<close>

record jsmath =
  Math_PI :: jsnum
  Math_sin :: "jsnum \<Rightarrow> jsnum"
  Math_cos :: "jsnum \<Rightarrow> jsnum"
  Math_sqrt :: "jsnum \<Rightarrow> jsnum"
  Math_atan2 :: "jsnum \<Rightarrow> jsnum \<Rightarrow> jsnum"
  num_add :: "jsnum \<Rightarrow> jsnum \<Rightarrow> jsnum"
  num_sub :: "jsnum \<Rightarrow> jsnum \<Rightarrow> jsnum"
  num_mul :: "jsnum \<Rightarrow> jsnum \<Rightarrow> jsnum"
  num_div :: "jsnum \<Rightarrow> jsnum \<Rightarrow> jsnum"
  toFixed1 :: "jsnum \<Rightarrow> jsnum"
  StringToNumber :: "string \<Rightarrow> jsnum"

subsection \<open>Exact arithmetic with the IEEE 754 rules for NaN and the infinities\<close>

text \<open>
  One arithmetic to evaluate the code with: on \<open>NaN\<close> and the infinities it follows
  IEEE 754 and ECMAScript, on finite values it computes the exact real result (no
  rounding, no overflow).
\<close>

fun is_zero :: "jsnum \<Rightarrow> bool" where
  "is_zero (Fin r) = (r = 0)"
| "is_zero _ = False"

fun is_negative :: "jsnum \<Rightarrow> bool" where
  "is_negative NInf = True"
| "is_negative (Fin r) = (r < 0)"
| "is_negative _ = False"

fun exact_mul :: "jsnum \<Rightarrow> jsnum \<Rightarrow> jsnum" where
  "exact_mul NaN y = NaN"
| "exact_mul x NaN = NaN"
| "exact_mul (Fin a) (Fin b) = Fin (a * b)"
| "exact_mul x y =
     (if is_zero x \<or> is_zero y then NaN
      else if is_negative x = is_negative y then PInf else NInf)"

fun exact_div :: "jsnum \<Rightarrow> jsnum \<Rightarrow> jsnum" where
  "exact_div NaN y = NaN"
| "exact_div x NaN = NaN"
| "exact_div (Fin a) (Fin b) =
     (if b \<noteq> 0 then Fin (a / b)
      else if a = 0 then NaN else if a < 0 then NInf else PInf)"
| "exact_div (Fin a) y = Fin 0"
| "exact_div x (Fin b) = (if is_negative x = (b < 0) then PInf else NInf)"
| "exact_div x y = NaN"

fun exact_add :: "jsnum \<Rightarrow> jsnum \<Rightarrow> jsnum" where
  "exact_add NaN y = NaN"
| "exact_add x NaN = NaN"
| "exact_add (Fin a) (Fin b) = Fin (a + b)"
| "exact_add (Fin a) y = y"
| "exact_add x (Fin b) = x"
| "exact_add x y = (if x = y then x else NaN)"

definition exact_sub :: "jsnum \<Rightarrow> jsnum \<Rightarrow> jsnum" where
  "exact_sub x y = exact_add x (neg y)"

fun exact_sin :: "jsnum \<Rightarrow> jsnum" where
  "exact_sin (Fin r) = Fin (sin r)"
| "exact_sin _ = NaN"

fun exact_cos :: "jsnum \<Rightarrow> jsnum" where
  "exact_cos (Fin r) = Fin (cos r)"
| "exact_cos _ = NaN"

fun exact_sqrt :: "jsnum \<Rightarrow> jsnum" where
  "exact_sqrt (Fin r) = (if r < 0 then NaN else Fin (sqrt r))"
| "exact_sqrt PInf = PInf"
| "exact_sqrt _ = NaN"

definition atan2_real :: "real \<Rightarrow> real \<Rightarrow> real" where
  "atan2_real y x =
     (if 0 < x then arctan (y / x)
      else if x < 0 then (if 0 \<le> y then arctan (y / x) + pi else arctan (y / x) - pi)
      else if 0 < y then pi / 2 else if y < 0 then - (pi / 2) else 0)"

fun exact_atan2 :: "jsnum \<Rightarrow> jsnum \<Rightarrow> jsnum" where
  "exact_atan2 NaN x = NaN"
| "exact_atan2 y NaN = NaN"
| "exact_atan2 (Fin y) (Fin x) = Fin (atan2_real y x)"
| "exact_atan2 (Fin y) PInf = Fin 0"
| "exact_atan2 (Fin y) NInf = (if y < 0 then Fin (- pi) else Fin pi)"
| "exact_atan2 PInf (Fin x) = Fin (pi / 2)"
| "exact_atan2 NInf (Fin x) = Fin (- (pi / 2))"
| "exact_atan2 PInf PInf = Fin (pi / 4)"
| "exact_atan2 NInf PInf = Fin (- (pi / 4))"
| "exact_atan2 PInf NInf = Fin (3 * pi / 4)"
| "exact_atan2 NInf NInf = Fin (- (3 * pi / 4))"

text \<open>
  \<open>Number(x.toFixed(1))\<close>: \<open>toFixed\<close> prints \<open>NaN\<close> and the infinities by name and a
  value of magnitude \<open>10\<^sup>2\<^sup>1\<close> or more in full; otherwise it takes the integer \<open>n\<close> with
  \<open>n / 10\<close> nearest to the magnitude, the larger one on a tie, and restores the sign.
\<close>

fun exact_toFixed1 :: "jsnum \<Rightarrow> jsnum" where
  "exact_toFixed1 (Fin r) =
     (if 10 ^ 21 \<le> \<bar>r\<bar> then Fin r
      else if r < 0 then Fin (- (of_int \<lfloor>(- r) * 10 + 1 / 2\<rfloor> / 10))
      else Fin (of_int \<lfloor>r * 10 + 1 / 2\<rfloor> / 10))"
| "exact_toFixed1 x = x"

text \<open>
  The conversion of a string to a number, for the strings \<open>Infinity\<close>, the empty string
  and the decimal literals with an optional sign and an optional fraction. Every other
  string is read as \<open>NaN\<close>: ECMAScript does so for text that is no numeric literal; its
  exponents, radix prefixes and surrounding white space are left out of this arithmetic.
\<close>

definition digit_val :: "char \<Rightarrow> nat option" where
  "digit_val c =
     (if of_char CHR ''0'' \<le> (of_char c :: nat) \<and> (of_char c :: nat) \<le> of_char CHR ''9''
      then Some (of_char c - of_char CHR ''0'') else None)"

fun parse_digits :: "nat \<Rightarrow> string \<Rightarrow> nat option" where
  "parse_digits acc [] = Some acc"
| "parse_digits acc (c # cs) =
     (case digit_val c of None \<Rightarrow> None | Some d \<Rightarrow> parse_digits (10 * acc + d) cs)"

definition parse_unsigned :: "string \<Rightarrow> jsnum" where
  "parse_unsigned s =
     (if s = ''Infinity'' then PInf
      else
        let ip = takeWhile (\<lambda>c. c \<noteq> CHR ''.'') s;
            fp = drop (Suc (length ip)) s
        in if ip = [] \<and> fp = [] then NaN
           else (case (parse_digits 0 ip, parse_digits 0 fp) of
                   (Some i, Some f) \<Rightarrow> Fin (real i + real f / 10 ^ length fp)
                 | _ \<Rightarrow> NaN))"

fun exact_StringToNumber :: "string \<Rightarrow> jsnum" where
  "exact_StringToNumber [] = Fin 0"
| "exact_StringToNumber (c # cs) =
     (if c = CHR ''-'' then neg (parse_unsigned cs)
      else if c = CHR ''+'' then parse_unsigned cs
      else parse_unsigned (c # cs))"

definition exact :: jsmath where
  "exact =
     \<lparr> Math_PI = Fin pi, Math_sin = exact_sin, Math_cos = exact_cos,
       Math_sqrt = exact_sqrt, Math_atan2 = exact_atan2,
       num_add = exact_add, num_sub = exact_sub, num_mul = exact_mul,
       num_div = exact_div, toFixed1 = exact_toFixed1,
       StringToNumber = exact_StringToNumber \<rparr>"

section \<open>calculateDistance\<close>

text \<open>
  The parameters are declared \<open>number\<close>; the guard also tests for \<open>undefined\<close> and
  \<open>null\<close>, so an argument is one of the three. The result \<open>None\<close> is \<open>undefined\<close>.
  No operation of the body throws, so the \<open>catch\<close> branch is never taken.
\<close>

datatype numarg = Undefined | Null | Num jsnum

fun invalid_coord :: "numarg \<Rightarrow> bool" where
  "invalid_coord Undefined = True"
| "invalid_coord Null = True"
| "invalid_coord (Num x) = isNaN x"

fun ToNumber_arg :: "numarg \<Rightarrow> jsnum" where
  "ToNumber_arg (Num x) = x"
| "ToNumber_arg Null = Fin 0"
| "ToNumber_arg Undefined = NaN"

definition calculateDistance ::
  "jsmath \<Rightarrow> numarg \<Rightarrow> numarg \<Rightarrow> numarg \<Rightarrow> numarg \<Rightarrow> jsnum option" where
  "calculateDistance M lat1 lon1 lat2 lon2 =
     (if list_ex invalid_coord [lat1, lon1, lat2, lon2] then None
      else
        let lat1Rad = num_div M (num_mul M (ToNumber_arg lat1) (Math_PI M)) (Fin 180);
            lon1Rad = num_div M (num_mul M (ToNumber_arg lon1) (Math_PI M)) (Fin 180);
            lat2Rad = num_div M (num_mul M (ToNumber_arg lat2) (Math_PI M)) (Fin 180);
            lon2Rad = num_div M (num_mul M (ToNumber_arg lon2) (Math_PI M)) (Fin 180);
            R = Fin 6371;
            dLat = num_sub M lat2Rad lat1Rad;
            dLon = num_sub M lon2Rad lon1Rad;
            a = num_add M
                  (num_mul M (Math_sin M (num_div M dLat (Fin 2)))
                             (Math_sin M (num_div M dLat (Fin 2))))
                  (num_mul M
                     (num_mul M
                        (num_mul M (Math_cos M lat1Rad) (Math_cos M lat2Rad))
                        (Math_sin M (num_div M dLon (Fin 2))))
                     (Math_sin M (num_div M dLon (Fin 2))));
            c = num_mul M (Fin 2)
                  (Math_atan2 M (Math_sqrt M a) (Math_sqrt M (num_sub M (Fin 1) a)));
            distance = num_mul M R c
        in Some (toFixed1 M distance))"

section \<open>processLocation\<close>

text \<open>
  The \<open>location\<close> argument is typed \<open>any\<close>: it comes from a JSON request body or from
  a \<open>jsonb\<close> column. Arrays are left out of the value type.
\<close>

datatype jsval =
    JUndefined | JNull | JBool bool | JNum jsnum | JStr string
  | JObj "(string \<times> jsval) list"

fun truthy :: "jsval \<Rightarrow> bool" where
  "truthy JUndefined = False"
| "truthy JNull = False"
| "truthy (JBool b) = b"
| "truthy (JNum x) = (\<not> isNaN x \<and> \<not> is_zero x)"
| "truthy (JStr s) = (s \<noteq> [])"
| "truthy (JObj kvs) = True"

fun typeof_object :: "jsval \<Rightarrow> bool" where
  "typeof_object JNull = True"
| "typeof_object (JObj kvs) = True"
| "typeof_object _ = False"

text \<open>
  Property access \<open>v.k\<close> throws a TypeError (\<open>None\<close>) on \<open>undefined\<close> and \<open>null\<close>;
  \<open>v?.k\<close> yields \<open>undefined\<close> there. The keys read below are no properties of the
  prototypes of booleans, numbers or strings.
\<close>

fun get_prop :: "jsval \<Rightarrow> string \<Rightarrow> jsval option" where
  "get_prop JUndefined k = None"
| "get_prop JNull k = None"
| "get_prop (JObj kvs) k = Some (case map_of kvs k of None \<Rightarrow> JUndefined | Some v \<Rightarrow> v)"
| "get_prop _ k = Some JUndefined"

fun get_prop_opt :: "jsval \<Rightarrow> string \<Rightarrow> jsval option" where
  "get_prop_opt JUndefined k = Some JUndefined"
| "get_prop_opt JNull k = Some JUndefined"
| "get_prop_opt v k = get_prop v k"

fun Number :: "jsmath \<Rightarrow> jsval \<Rightarrow> jsnum" where
  "Number M JUndefined = NaN"
| "Number M JNull = Fin 0"
| "Number M (JBool b) = (if b then Fin 1 else Fin 0)"
| "Number M (JNum x) = x"
| "Number M (JStr s) = StringToNumber M s"
| "Number M (JObj kvs) = NaN"

record coordinates =
  lat :: jsnum
  lng :: jsnum

record LocationData =
  coordinates :: coordinates
  formatted_address :: jsval
  distance :: "jsnum option"

text \<open>
  \<open>userLat\<close> and \<open>userLng\<close> are \<open>number | undefined\<close>: \<open>None\<close> is \<open>undefined\<close>, and
  \<open>typeof userLat === 'number'\<close> holds for every \<open>Some\<close>. The result \<open>None\<close> is \<open>null\<close>,
  returned by the two checks and by the \<open>catch\<close> branch alike.
\<close>

definition processLocation ::
  "jsmath \<Rightarrow> jsval \<Rightarrow> jsnum option \<Rightarrow> jsnum option \<Rightarrow> LocationData option" where
  "processLocation M location userLat userLng =
     (if \<not> truthy location \<or> \<not> typeof_object location then None
      else do {
        coords \<leftarrow> get_prop location ''coordinates'';
        lat0 \<leftarrow> get_prop_opt coords ''lat'';
        lng0 \<leftarrow> get_prop_opt coords ''lng'';
        if \<not> truthy lat0 \<or> \<not> truthy lng0 then None
        else do {
          lat1 \<leftarrow> get_prop coords ''lat'';
          lng1 \<leftarrow> get_prop coords ''lng'';
          fa \<leftarrow> get_prop location ''formatted_address'';
          let processedLocation =
                \<lparr> coordinates = \<lparr> lat = Number M lat1, lng = Number M lng1 \<rparr>,
                  formatted_address = (if truthy fa then fa else JStr []),
                  distance = None \<rparr>;
          Some
            (if userLat \<noteq> None \<and> userLng \<noteq> None
             then (case calculateDistance M (Num (the userLat)) (Num (the userLng))
                          (Num (lat (coordinates processedLocation)))
                          (Num (lng (coordinates processedLocation))) of
                     Some d \<Rightarrow> processedLocation \<lparr> distance := Some d \<rparr>
                   | None \<Rightarrow> processedLocation)
             else processedLocation)
        }
      })"

section \<open>The database\<close>

text \<open>
  The tables of the schema, with the columns the review handlers read and write. A
  table is the list of its rows; primary keys are distinct. Timestamps are integers.
  The \<open>jsonb\<close> column \<open>location\<close> holds a JSON value, \<open>JNull\<close> for SQL \<open>NULL\<close>.
\<close>

record user =
  user_id :: int
  username :: string

record follow =
  followerId :: int
  followingId :: int

record group =
  group_id :: int
  name :: string

record groupMember =
  member_groupId :: int
  member_userId :: int

record review =
  review_id :: int
  userId :: int
  placeId :: string
  placeName :: "string option"
  rating :: int
  comment :: "string option"
  isPublic :: bool
  groupId :: "int option"
  location :: jsval
  createdAt :: int

record reviewLike =
  like_id :: int
  reviewId :: int
  like_userId :: int
  like_createdAt :: int

record db =
  users :: "user list"
  follows :: "follow list"
  groups :: "group list"
  groupMembers :: "groupMember list"
  reviews :: "review list"
  reviewLikes :: "reviewLike list"

text \<open>
  What the database takes for a column. An \<open>integer\<close> or \<open>serial\<close> column and a
  parameter compared with one hold a 32-bit signed value; a \<open>text\<close> column holds no
  zero character, and neither does a string or a key inside a \<open>jsonb\<close> value. A
  statement with a value outside these is refused with an error, which the handlers
  catch and answer with 500. Strings are in their UTF-8 encoding.
\<close>

definition int4 :: "int \<Rightarrow> bool" where
  "int4 i \<longleftrightarrow> - 2147483648 \<le> i \<and> i \<le> 2147483647"

definition text_ok :: "string \<Rightarrow> bool" where
  "text_ok s \<longleftrightarrow> CHR 0x00 \<notin> set s"

fun jsonb_ok :: "jsval \<Rightarrow> bool" where
  "jsonb_ok (JStr s) = text_ok s"
| "jsonb_ok (JObj kvs) = list_all (\<lambda>kv. text_ok (fst kv) \<and> jsonb_ok (snd kv)) kvs"
| "jsonb_ok v = True"

text \<open>
  \<open>ORDER BY created_at DESC\<close> has one sort key: the database returns the selected rows
  in some order that is non-increasing in that key.
\<close>

definition orderBy_desc :: "('a \<Rightarrow> int) \<Rightarrow> 'a list \<Rightarrow> 'a list \<Rightarrow> bool" where
  "orderBy_desc key rows out \<longleftrightarrow>
     mset out = mset rows \<and> sorted_wrt (\<lambda>a b. key b \<le> key a) out"

section \<open>Requests and responses\<close>

text \<open>
  A request carries \<open>req.user?.id\<close> (\<open>None\<close> when there is no session user);
  \<open>req.isAuthenticated()\<close> holds exactly when \<open>req.user\<close> is set. The query parameters
  \<open>userLat\<close> and \<open>userLng\<close> are given as the handlers read them,
  \<open>req.query.userLat ? parseFloat(req.query.userLat) : undefined\<close>. A route parameter
  read with \<open>parseInt\<close> is \<open>None\<close> when the result is \<open>NaN\<close>, which the database
  refuses for an integer column as it does a value outside the 32-bit range. The id of
  the session user is a primary key of \<open>users\<close>, read from that table when the session
  is restored. A database that cannot be reached is outside the model, and so is the
  middleware the application mounts in front of the routers: the handlers are modelled
  as the routers define them.

  A response is a status with a one-field JSON body \<open>{key: text}\<close>, a status with a JSON
  payload, or a status alone.
\<close>

datatype 'a response = Message nat string string | Json nat 'a | NoContent nat

definition isAuthenticated :: "int option \<Rightarrow> bool" where
  "isAuthenticated viewer = (viewer \<noteq> None)"

fun truthy_id :: "int option \<Rightarrow> bool" where
  "truthy_id None = False"
| "truthy_id (Some i) = (i \<noteq> 0)"

record 'l feedRow =
  row_id :: int
  row_placeId :: string
  row_placeName :: "string option"
  row_rating :: int
  row_comment :: "string option"
  row_createdAt :: int
  row_username :: "string option"
  row_location :: 'l
  row_group :: "(int option \<times> string option) option"
  row_likes :: nat
  row_isLiked :: bool

definition likes_count :: "db \<Rightarrow> review \<Rightarrow> nat" where
  "likes_count d r = length [l \<leftarrow> reviewLikes d. reviewId l = review_id r]"

definition is_liked :: "db \<Rightarrow> int option \<Rightarrow> review \<Rightarrow> bool" where
  "is_liked d viewer r =
     (truthy_id viewer \<and>
      list_ex (\<lambda>l. reviewId l = review_id r \<and> like_userId l = the viewer) (reviewLikes d))"

definition groupName :: "db \<Rightarrow> int option \<Rightarrow> string option" where
  "groupName d g =
     (case g of None \<Rightarrow> None
      | Some gid \<Rightarrow>
          (case [name gr. m \<leftarrow> groupMembers d, gr \<leftarrow> groups d,
                   group_id gr = member_groupId m, member_groupId m = gid] of
             [] \<Rightarrow> None | n # ns \<Rightarrow> Some n))"

definition feed_row ::
  "review \<Rightarrow> string option \<Rightarrow> (int option \<times> string option) option \<Rightarrow> nat \<Rightarrow> bool
   \<Rightarrow> jsval feedRow" where
  "feed_row r uname grp n liked =
     \<lparr> row_id = review_id r, row_placeId = placeId r, row_placeName = placeName r,
       row_rating = rating r, row_comment = comment r, row_createdAt = createdAt r,
       row_username = uname, row_location = location r, row_group = grp,
       row_likes = n, row_isLiked = liked \<rparr>"

text \<open>
  The mapping over the selected rows:
  \<open>{...review, location: review.location ? processLocation(review.location, userLat, userLng) : null}\<close>.
\<close>

definition format_location ::
  "jsmath \<Rightarrow> jsnum option \<Rightarrow> jsnum option \<Rightarrow> jsval \<Rightarrow> LocationData option" where
  "format_location M userLat userLng loc =
     (if truthy loc then processLocation M loc userLat userLng else None)"

definition formatReview ::
  "jsmath \<Rightarrow> jsnum option \<Rightarrow> jsnum option \<Rightarrow> jsval feedRow
   \<Rightarrow> LocationData option feedRow" where
  "formatReview M userLat userLng row =
     \<lparr> row_id = row_id row, row_placeId = row_placeId row,
       row_placeName = row_placeName row, row_rating = row_rating row,
       row_comment = row_comment row, row_createdAt = row_createdAt row,
       row_username = row_username row,
       row_location = format_location M userLat userLng (row_location row),
       row_group = row_group row, row_likes = row_likes row,
       row_isLiked = row_isLiked row \<rparr>"

section \<open>The feeds\<close>

subsection \<open>GET /reviews/community\<close>

text \<open>
  Reviews joined with their author, \<open>WHERE is_public\<close>, grouped by review and author,
  with the number of joined like rows and the viewer's like.
\<close>

definition community_select :: "db \<Rightarrow> int option \<Rightarrow> jsval feedRow list" where
  "community_select d viewer =
     [feed_row r (Some (username u)) (Some (groupId r, groupName d (groupId r)))
        (likes_count d r) (is_liked d viewer r).
      r \<leftarrow> reviews d, u \<leftarrow> users d, userId r = user_id u, isPublic r]"

inductive community ::
  "jsmath \<Rightarrow> db \<Rightarrow> int option \<Rightarrow> jsnum option \<Rightarrow> jsnum option
   \<Rightarrow> LocationData option feedRow list response \<Rightarrow> bool"
  for M d viewer userLat userLng where
    community_401:
      "\<not> isAuthenticated viewer \<Longrightarrow>
       community M d viewer userLat userLng (Message 401 ''message'' ''Not authenticated'')"
  | community_200:
      "isAuthenticated viewer \<Longrightarrow>
       orderBy_desc row_createdAt (community_select d viewer) communityReviews \<Longrightarrow>
       community M d viewer userLat userLng
         (Json 200 (map (formatReview M userLat userLng) communityReviews))"

code_pred community .

subsection \<open>GET /reviews/following\<close>

text \<open>
  The same join, joined further with \<open>follows\<close> on the author,
  \<open>WHERE follows.follower_id = viewer AND is_public\<close>. The groups do not name the follow
  row, so a review appears once and its like rows are counted once per matching follow
  row.
\<close>

definition following_select :: "db \<Rightarrow> int \<Rightarrow> jsval feedRow list" where
  "following_select d viewer =
     [feed_row r (Some (username u)) None
        (likes_count d r *
           length [f \<leftarrow> follows d. followingId f = userId r \<and> followerId f = viewer])
        (list_ex (\<lambda>l. reviewId l = review_id r \<and> like_userId l = viewer) (reviewLikes d)).
      r \<leftarrow> reviews d, u \<leftarrow> users d, userId r = user_id u, isPublic r,
      list_ex (\<lambda>f. followingId f = userId r \<and> followerId f = viewer) (follows d)]"

inductive following ::
  "jsmath \<Rightarrow> db \<Rightarrow> int option \<Rightarrow> jsnum option \<Rightarrow> jsnum option
   \<Rightarrow> LocationData option feedRow list response \<Rightarrow> bool"
  for M d viewer userLat userLng where
    following_401:
      "\<not> truthy_id viewer \<Longrightarrow>
       following M d viewer userLat userLng (Message 401 ''error'' ''Not authenticated'')"
  | following_200:
      "truthy_id viewer \<Longrightarrow>
       orderBy_desc row_createdAt (following_select d (the viewer)) followingReviews \<Longrightarrow>
       following M d viewer userLat userLng
         (Json 200 (map (formatReview M userLat userLng) followingReviews))"

code_pred following .

subsection \<open>GET /reviews/place/:placeId\<close>

text \<open>
  Reviews of one place, left-joined with their author: a review without an author row
  is kept, with no username. No authentication is asked for.
\<close>

definition place_select :: "db \<Rightarrow> int option \<Rightarrow> string \<Rightarrow> jsval feedRow list" where
  "place_select d viewer pid =
     [feed_row r uname None (likes_count d r) (is_liked d viewer r).
      r \<leftarrow> reviews d, placeId r = pid,
      uname \<leftarrow> (case [u \<leftarrow> users d. userId r = user_id u] of
                  [] \<Rightarrow> [None] | us \<Rightarrow> map (\<lambda>u. Some (username u)) us)]"

inductive place ::
  "jsmath \<Rightarrow> db \<Rightarrow> int option \<Rightarrow> string \<Rightarrow> jsnum option \<Rightarrow> jsnum option
   \<Rightarrow> LocationData option feedRow list response \<Rightarrow> bool"
  for M d viewer pid userLat userLng where
    place_200:
      "orderBy_desc row_createdAt (place_select d viewer pid) placeReviews \<Longrightarrow>
       place M d viewer pid userLat userLng
         (Json 200 (map (formatReview M userLat userLng) placeReviews))"

code_pred place .

subsection \<open>GET /groups/:groupId/reviews\<close>

record groupReview =
  gr_id :: int
  gr_userId :: int
  gr_placeId :: string
  gr_placeName :: "string option"
  gr_rating :: int
  gr_comment :: "string option"
  gr_createdAt :: int
  gr_username :: string
  gr_location :: jsval

text \<open>
  The membership query, \<open>isMember.length > 0\<close>: it finds a row only for a group id the
  integer column can hold; for any other id the query fails.
\<close>

definition is_member :: "db \<Rightarrow> int \<Rightarrow> int \<Rightarrow> bool" where
  "is_member d gid uid =
     (int4 gid \<and>
      take 1 [m \<leftarrow> groupMembers d. member_groupId m = gid \<and> member_userId m = uid] \<noteq> [])"

definition group_row :: "review \<Rightarrow> user \<Rightarrow> groupReview" where
  "group_row r u =
     \<lparr> gr_id = review_id r, gr_userId = userId r, gr_placeId = placeId r,
       gr_placeName = placeName r, gr_rating = rating r, gr_comment = comment r,
       gr_createdAt = createdAt r, gr_username = username u, gr_location = location r \<rparr>"

definition group_select :: "db \<Rightarrow> int \<Rightarrow> groupReview list" where
  "group_select d gid =
     [group_row r u. r \<leftarrow> reviews d, u \<leftarrow> users d, userId r = user_id u, groupId r = Some gid]"

text \<open>
  The router applies \<open>requireAuth\<close> to every route, then the handler runs.
\<close>

inductive group_reviews ::
  "db \<Rightarrow> int option \<Rightarrow> int option \<Rightarrow> groupReview list response \<Rightarrow> bool"
  for d viewer groupId_param where
    group_401:
      "\<not> truthy_id viewer \<Longrightarrow>
       group_reviews d viewer groupId_param (Message 401 ''message'' ''Not authenticated'')"
  | group_500_NaN:
      "truthy_id viewer \<Longrightarrow> groupId_param = None \<Longrightarrow>
       group_reviews d viewer groupId_param
         (Message 500 ''message'' ''Failed to fetch group reviews'')"
  | group_500_range:
      "truthy_id viewer \<Longrightarrow> groupId_param = Some gid \<Longrightarrow> \<not> int4 gid \<Longrightarrow>
       group_reviews d viewer groupId_param
         (Message 500 ''message'' ''Failed to fetch group reviews'')"
  | group_403:
      "truthy_id viewer \<Longrightarrow> groupId_param = Some gid \<Longrightarrow> int4 gid \<Longrightarrow>
       \<not> is_member d gid (the viewer) \<Longrightarrow>
       group_reviews d viewer groupId_param
         (Message 403 ''message'' ''Not a member of this group'')"
  | group_200:
      "truthy_id viewer \<Longrightarrow> groupId_param = Some gid \<Longrightarrow> int4 gid \<Longrightarrow>
       is_member d gid (the viewer) \<Longrightarrow>
       orderBy_desc gr_createdAt (group_select d gid) groupReviews \<Longrightarrow>
       group_reviews d viewer groupId_param (Json 200 groupReviews)"

code_pred group_reviews .

section \<open>Likes\<close>

text \<open>
  An insert takes its primary key from the table's sequence and its \<open>created_at\<close> from
  the clock; both are arguments. The database refuses a row whose primary key is taken
  or outside the 32-bit range or whose foreign keys name no row, and it refuses a query
  or a delete whose review id is outside that range; the handler's \<open>catch\<close> answers 500.
\<close>

definition existingLike :: "db \<Rightarrow> int \<Rightarrow> int \<Rightarrow> reviewLike list" where
  "existingLike d rid uid =
     take 1 [l \<leftarrow> reviewLikes d. reviewId l = rid \<and> like_userId l = uid]"

definition like_review ::
  "db \<Rightarrow> int option \<Rightarrow> int option \<Rightarrow> int \<Rightarrow> int \<Rightarrow> unit response \<times> db" where
  "like_review d viewer reviewId_param newId now =
     (if \<not> truthy_id viewer then (Message 401 ''message'' ''Not authenticated'', d)
      else case reviewId_param of
        None \<Rightarrow> (Message 500 ''message'' ''Failed to like review'', d)
      | Some rid \<Rightarrow>
          if \<not> int4 rid
          then (Message 500 ''message'' ''Failed to like review'', d)
          else if 0 < length (existingLike d rid (the viewer))
          then (Message 400 ''message'' ''Already liked this review'', d)
          else if \<not> int4 newId \<or> newId \<in> like_id ` set (reviewLikes d)
                  \<or> rid \<notin> review_id ` set (reviews d)
                  \<or> the viewer \<notin> user_id ` set (users d)
          then (Message 500 ''message'' ''Failed to like review'', d)
          else (Message 201 ''message'' ''Review liked successfully'',
                d \<lparr> reviewLikes := reviewLikes d @
                     [\<lparr> like_id = newId, reviewId = rid, like_userId = the viewer,
                        like_createdAt = now \<rparr>] \<rparr>))"

definition unlike_review :: "db \<Rightarrow> int option \<Rightarrow> int option \<Rightarrow> unit response \<times> db" where
  "unlike_review d viewer reviewId_param =
     (if \<not> truthy_id viewer then (Message 401 ''message'' ''Not authenticated'', d)
      else case reviewId_param of
        None \<Rightarrow> (Message 500 ''message'' ''Failed to unlike review'', d)
      | Some rid \<Rightarrow>
          if \<not> int4 rid
          then (Message 500 ''message'' ''Failed to unlike review'', d)
          else
            (NoContent 204,
             d \<lparr> reviewLikes :=
                   [l \<leftarrow> reviewLikes d. \<not> (reviewId l = rid \<and> like_userId l = the viewer)] \<rparr>))"

section \<open>POST /reviews\<close>

text \<open>
  The body fields with the types the clients send and the columns hold: \<open>None\<close> is a
  field that is absent or \<open>null\<close>. The location is any JSON value, \<open>JUndefined\<close> when
  absent.
\<close>

record reviewBody =
  body_placeId :: "string option"
  body_rating :: "int option"
  body_comment :: "string option"
  body_placeName :: "string option"
  body_location :: jsval
  body_groupId :: "int option"

fun truthy_string :: "string option \<Rightarrow> bool" where
  "truthy_string None = False"
| "truthy_string (Some s) = (s \<noteq> [])"

text \<open>
  \<open>JSON.stringify\<close> of the processed location, as the \<open>jsonb\<close> column stores it: a
  number that is \<open>NaN\<close> or infinite becomes \<open>null\<close>, the unset \<open>distance\<close> is dropped.
\<close>

fun json_number :: "jsnum \<Rightarrow> jsval" where
  "json_number (Fin r) = JNum (Fin r)"
| "json_number _ = JNull"

definition json_location :: "LocationData \<Rightarrow> jsval" where
  "json_location l =
     JObj [(''coordinates'',
            JObj [(''lat'', json_number (lat (coordinates l))),
                  (''lng'', json_number (lng (coordinates l)))]),
           (''formatted_address'', formatted_address l)]"

record createdReview =
  created_review :: review
  created_username :: string
  created_location :: LocationData
  created_likes :: nat
  created_isLiked :: bool

text \<open>
  The row given to \<open>db.insert(reviews).values(...)\<close>, with the primary key and the
  \<open>created_at\<close> the database adds.
\<close>

definition new_review :: "int \<Rightarrow> reviewBody \<Rightarrow> LocationData \<Rightarrow> int \<Rightarrow> int \<Rightarrow> review" where
  "new_review uid body processedLocation newId now =
     \<lparr> review_id = newId, userId = uid,
       placeId = the (body_placeId body),
       placeName = (if truthy_string (body_placeName body) then body_placeName body else None),
       rating = the (body_rating body),
       comment = (if truthy_string (body_comment body) then body_comment body else Some []),
       isPublic = True,
       groupId = (if truthy_id (body_groupId body) then body_groupId body else None),
       location = json_location processedLocation,
       createdAt = now \<rparr>"

text \<open>
  The insert: the database refuses the row (\<open>None\<close>) when the primary key is taken, a
  foreign key names no row, or a value does not fit its column.
\<close>

definition insert_review :: "db \<Rightarrow> review \<Rightarrow> db option" where
  "insert_review d r =
     (if \<not> int4 (review_id r) \<or> review_id r \<in> review_id ` set (reviews d)
         \<or> \<not> int4 (userId r) \<or> userId r \<notin> user_id ` set (users d)
         \<or> (groupId r \<noteq> None
             \<and> (\<not> int4 (the (groupId r)) \<or> the (groupId r) \<notin> group_id ` set (groups d)))
         \<or> \<not> int4 (rating r)
         \<or> \<not> text_ok (placeId r)
         \<or> (placeName r \<noteq> None \<and> \<not> text_ok (the (placeName r)))
         \<or> (comment r \<noteq> None \<and> \<not> text_ok (the (comment r)))
         \<or> \<not> jsonb_ok (location r)
      then None
      else Some (d \<lparr> reviews := reviews d @ [r] \<rparr>))"

definition post_review ::
  "jsmath \<Rightarrow> db \<Rightarrow> int option \<Rightarrow> reviewBody \<Rightarrow> int \<Rightarrow> int
   \<Rightarrow> createdReview response \<times> db" where
  "post_review M d viewer body newId now =
     (if \<not> truthy_id viewer then (Message 401 ''error'' ''Not authenticated'', d)
      else if \<not> truthy_string (body_placeId body) \<or> \<not> truthy_id (body_rating body)
      then (Message 400 ''error'' ''Missing required fields'', d)
      else if truthy_id (body_groupId body) \<and> \<not> int4 (the (body_groupId body))
      then (Message 500 ''error'' ''Failed to create review'', d)
      else if truthy_id (body_groupId body)
                \<and> \<not> is_member d (the (body_groupId body)) (the viewer)
      then (Message 403 ''error'' ''Not a member of this group'', d)
      else
        (case processLocation M (body_location body) None None of
           None \<Rightarrow> (Message 400 ''error'' ''Invalid location data'', d)
         | Some processedLocation \<Rightarrow>
             (let newReview = new_review (the viewer) body processedLocation newId now
              in (case insert_review d newReview of
                    None \<Rightarrow> (Message 500 ''error'' ''Failed to create review'', d)
                  | Some d' \<Rightarrow>
                      (case find (\<lambda>u. user_id u = the viewer) (users d') of
                         None \<Rightarrow> (Message 500 ''error'' ''Failed to create review'', d')
                       | Some u \<Rightarrow>
                           (Json 201
                              \<lparr> created_review = newReview,
                                created_username = username u,
                                created_location = processedLocation,
                                created_likes = 0, created_isLiked = False \<rparr>,
                            d'))))))"

section \<open>Schema constraints and example data\<close>

text \<open>
  The foreign key of \<open>reviews.user_id\<close>: every review has its author's row.
\<close>

definition reviews_have_authors :: "db \<Rightarrow> bool" where
  "reviews_have_authors d \<longleftrightarrow> (\<forall>r\<in>set (reviews d). userId r \<in> user_id ` set (users d))"

text \<open>
  Two users, the second following the first; one group with the first user as member;
  two public reviews written at the same time and one private review of the group; one
  like, by the second user on the first review.
\<close>

definition review1 :: review where
  "review1 =
     \<lparr> review_id = 1, userId = 1, placeId = ''p1'', placeName = Some ''Cafe'',
       rating = 5, comment = Some ''good'', isPublic = True, groupId = None,
       location = JNull, createdAt = 100 \<rparr>"

definition review2 :: review where
  "review2 =
     \<lparr> review_id = 2, userId = 1, placeId = ''p2'', placeName = Some ''Bar'',
       rating = 4, comment = Some ''fine'', isPublic = True, groupId = None,
       location = JNull, createdAt = 100 \<rparr>"

definition review3 :: review where
  "review3 =
     \<lparr> review_id = 3, userId = 1, placeId = ''p1'', placeName = Some ''Cafe'',
       rating = 3, comment = None, isPublic = False, groupId = Some 1,
       location = JNull, createdAt = 50 \<rparr>"

definition example_db :: db where
  "example_db =
     \<lparr> users = [\<lparr> user_id = 1, username = ''ann'' \<rparr>, \<lparr> user_id = 2, username = ''bob'' \<rparr>],
       follows = [\<lparr> followerId = 2, followingId = 1 \<rparr>],
       groups = [\<lparr> group_id = 1, name = ''trip'' \<rparr>],
       groupMembers = [\<lparr> member_groupId = 1, member_userId = 1 \<rparr>],
       reviews = [review1, review2, review3],
       reviewLikes = [\<lparr> like_id = 1, reviewId = 1, like_userId = 2, like_createdAt = 101 \<rparr>] \<rparr>"

text \<open>
  A request body with a place and a rating and no location, and locations on the
  equator and off it.
\<close>

definition body_without_location :: reviewBody where
  "body_without_location =
     \<lparr> body_placeId = Some ''p1'', body_rating = Some 5, body_comment = Some ''good'',
       body_placeName = Some ''Cafe'', body_location = JUndefined, body_groupId = None \<rparr>"


definition paris_location :: jsval where
  "paris_location =
     JObj [(''coordinates'', JObj [(''lat'', JNum (Fin 48)), (''lng'', JNum (Fin 2))]),
           (''formatted_address'', JStr ''Paris'')]"

section \<open>Facts about the arithmetic and the queries\<close>

lemma neg_neg: "neg (neg x) = x"
  by (cases x) simp_all

lemma exact_mul_commute: "exact_mul x y = exact_mul y x"
  by (cases x; cases y) (auto simp: mult.commute)

lemma exact_mul_neg: "exact_mul (neg x) y = neg (exact_mul x y)"
  by (cases x; cases y) auto

lemma exact_sub_swap: "exact_sub x y = neg (exact_sub y x)"
  by (cases x; cases y) (auto simp: exact_sub_def)

lemma exact_half_neg: "exact_div (neg x) (Fin 2) = neg (exact_div x (Fin 2))"
  by (cases x) auto

lemma exact_sin_odd: "exact_sin (neg x) = neg (exact_sin x)"
  by (cases x) auto

lemma orderBy_desc_sort: "orderBy_desc key rows (sort_key (\<lambda>r. - key r) rows)"
proof -
  have "sorted (map (\<lambda>r. - key r) (sort_key (\<lambda>r. - key r) rows))"
    by (rule sorted_sort_key)
  then have "sorted_wrt (\<lambda>a b. key b \<le> key a) (sort_key (\<lambda>r. - key r) rows)"
    by (simp add: sorted_wrt_map)
  then show ?thesis by (simp add: orderBy_desc_def)
qed

lemma orderBy_desc_set: "orderBy_desc key rows out \<Longrightarrow> set out = set rows"
  by (auto simp: orderBy_desc_def dest: mset_eq_setD)

lemma orderBy_desc_sorted: "orderBy_desc key rows out \<Longrightarrow> sorted_wrt (\<lambda>a b. key b \<le> key a) out"
  by (simp add: orderBy_desc_def)

lemma row_id_formatReview [simp]: "row_id (formatReview M a b row) = row_id row"
  by (simp add: formatReview_def)
lemma row_createdAt_formatReview [simp]: "row_createdAt (formatReview M a b row) = row_createdAt row"
  by (simp add: formatReview_def)
lemma row_isLiked_formatReview [simp]: "row_isLiked (formatReview M a b row) = row_isLiked row"
  by (simp add: formatReview_def)

lemma community_select_iff:
  "row \<in> set (community_select d viewer) \<longleftrightarrow>
     (\<exists>r\<in>set (reviews d). \<exists>u\<in>set (users d). userId r = user_id u \<and> isPublic r \<and>
        row = feed_row r (Some (username u)) (Some (groupId r, groupName d (groupId r)))
                (likes_count d r) (is_liked d viewer r))"
  unfolding community_select_def by (simp split: if_splits) blast

lemma following_select_iff:
  "row \<in> set (following_select d viewer) \<longleftrightarrow>
     (\<exists>r\<in>set (reviews d). \<exists>u\<in>set (users d). userId r = user_id u \<and> isPublic r \<and>
        (\<exists>f\<in>set (follows d). followingId f = userId r \<and> followerId f = viewer) \<and>
        row = feed_row r (Some (username u)) None
                (likes_count d r *
                   length [f \<leftarrow> follows d. followingId f = userId r \<and> followerId f = viewer])
                (list_ex (\<lambda>l. reviewId l = review_id r \<and> like_userId l = viewer) (reviewLikes d)))"
  unfolding following_select_def by (simp add: list_ex_iff split: if_splits) (safe; force)

lemma group_select_iff:
  "row \<in> set (group_select d gid) \<longleftrightarrow>
     (\<exists>r\<in>set (reviews d). \<exists>u\<in>set (users d). userId r = user_id u \<and> groupId r = Some gid \<and>
        row = group_row r u)"
  unfolding group_select_def by (simp split: if_splits) blast

lemma community_ids:
  assumes "reviews_have_authors d"
  shows "row_id ` set (community_select d viewer) = review_id ` {r \<in> set (reviews d). isPublic r}"
proof (intro set_eqI iffI)
  fix i assume "i \<in> row_id ` set (community_select d viewer)"
  then obtain row where "row \<in> set (community_select d viewer)" "i = row_id row" by blast
  then show "i \<in> review_id ` {r \<in> set (reviews d). isPublic r}"
    by (auto simp: community_select_iff feed_row_def)
next
  fix i assume "i \<in> review_id ` {r \<in> set (reviews d). isPublic r}"
  then obtain r where r: "r \<in> set (reviews d)" "isPublic r" "i = review_id r" by blast
  with assms obtain u where u: "u \<in> set (users d)" "userId r = user_id u"
    unfolding reviews_have_authors_def by blast
  let ?row = "feed_row r (Some (username u)) (Some (groupId r, groupName d (groupId r)))
                (likes_count d r) (is_liked d viewer r)"
  have "?row \<in> set (community_select d viewer)"
    using r u by (auto simp: community_select_iff)
  moreover have "row_id ?row = i" using r by (simp add: feed_row_def)
  ultimately show "i \<in> row_id ` set (community_select d viewer)" by force
qed

lemma community_isLiked:
  assumes "row \<in> set (community_select d viewer)"
  shows "row_isLiked row \<longleftrightarrow> truthy_id viewer \<and>
           (\<exists>l\<in>set (reviewLikes d). reviewId l = row_id row \<and> like_userId l = the viewer)"
  using assms by (auto simp: community_select_iff feed_row_def is_liked_def list_ex_iff)

lemma group_ids:
  assumes "reviews_have_authors d"
  shows "gr_id ` set (group_select d gid) = review_id ` {r \<in> set (reviews d). groupId r = Some gid}"
proof (intro set_eqI iffI)
  fix i assume "i \<in> gr_id ` set (group_select d gid)"
  then obtain row where "row \<in> set (group_select d gid)" "i = gr_id row" by blast
  then show "i \<in> review_id ` {r \<in> set (reviews d). groupId r = Some gid}"
    by (auto simp: group_select_iff group_row_def)
next
  fix i assume "i \<in> review_id ` {r \<in> set (reviews d). groupId r = Some gid}"
  then obtain r where r: "r \<in> set (reviews d)" "groupId r = Some gid" "i = review_id r" by blast
  with assms obtain u where u: "u \<in> set (users d)" "userId r = user_id u"
    unfolding reviews_have_authors_def by blast
  let ?row = "group_row r u"
  have "?row \<in> set (group_select d gid)"
    using r u by (auto simp: group_select_iff)
  moreover have "gr_id ?row = i" using r by (simp add: group_row_def)
  ultimately show "i \<in> gr_id ` set (group_select d gid)" by force
qed

lemmas ex_defs = example_db_def review1_def review2_def review3_def

lemma following_select_sound:
  "row \<in> set (following_select d v) \<Longrightarrow>
   \<exists>r\<in>set (reviews d). review_id r = row_id row \<and> isPublic r \<and>
      (\<exists>f\<in>set (follows d). followerId f = v \<and> followingId f = userId r)"
  unfolding following_select_def
  by (fastforce simp: feed_row_def list_ex_iff split: if_splits)

lemma sorted_formatReview:
  "sorted_wrt (\<lambda>x y. row_createdAt y \<le> row_createdAt x) (map (formatReview M a b) rows)
   = sorted_wrt (\<lambda>x y. row_createdAt y \<le> row_createdAt x) rows"
  by (simp add: sorted_wrt_map)

lemma community_select_example:
  "community_select example_db (Some 2) =
     [feed_row review1 (Some ''ann'') (Some (None, None)) 1 True,
      feed_row review2 (Some ''ann'') (Some (None, None)) 0 False]"
  by (simp add: community_select_def ex_defs likes_count_def is_liked_def groupName_def)

lemma following_select_example:
  "following_select example_db 2 =
     [feed_row review1 (Some ''ann'') None 1 True,
      feed_row review2 (Some ''ann'') None 0 False]"
  by (simp add: following_select_def ex_defs likes_count_def)

lemma place_select_example:
  "place_select example_db None ''p1'' =
     [feed_row review1 (Some ''ann'') None 1 False,
      feed_row review3 (Some ''ann'') None 0 False]"
  by (simp add: place_select_def ex_defs likes_count_def is_liked_def)

lemma group_select_example:
  "group_select example_db 1 = [group_row review3 \<lparr> user_id = 1, username = ''ann'' \<rparr>]"
  by (simp add: group_select_def ex_defs)

lemma processLocation_absent:
  "processLocation M JUndefined a b = None" "processLocation M JNull a b = None"
  by (simp_all add: processLocation_def)

lemma processLocation_paris:
  "processLocation exact paris_location None None
     = Some \<lparr> coordinates = \<lparr> lat = Fin 48, lng = Fin 2 \<rparr>,
              formatted_address = JStr ''Paris'', distance = None \<rparr>"
  by (simp add: processLocation_def paris_location_def)

section \<open>The distance function\<close>

text \<open>
  Claim C2 says that \<open>calculateDistance\<close> returns \<open>undefined\<close> whenever a coordinate is
  missing, non-numeric or non-finite. The guard tests \<open>undefined\<close>, \<open>null\<close> and \<open>isNaN\<close>
  only: with latitude \<open>Infinity\<close> and the other coordinates \<open>0\<close> the guard passes,
  \<open>Infinity * Math.PI / 180\<close> is \<open>Infinity\<close>, the difference of the latitudes is
  \<open>-Infinity\<close>, its sine is \<open>NaN\<close>, and the function returns the number \<open>NaN\<close>. Only
  the IEEE 754 rules for the infinities and \<open>NaN\<close> are used on the way.
\<close>

theorem calculateDistance_infinite_counterexample:
  "calculateDistance exact (Num PInf) (Num (Fin 0)) (Num (Fin 0)) (Num (Fin 0)) = Some NaN"
  by (simp add: calculateDistance_def exact_def exact_sub_def Let_def)

text \<open>
  Claim C2, amended: whenever one of the four coordinates is \<open>undefined\<close>, \<open>null\<close> or
  \<open>NaN\<close>, \<open>calculateDistance\<close> returns \<open>undefined\<close>, in every arithmetic and without
  throwing.
\<close>

theorem calculateDistance_missing_or_NaN:
  assumes "coord \<in> set [lat1, lon1, lat2, lon2]"
    and "coord = Undefined \<or> coord = Null \<or> coord = Num NaN"
  shows "calculateDistance M lat1 lon1 lat2 lon2 = None"
proof -
  from assms(2) have "invalid_coord coord" by auto
  with assms(1) have "list_ex invalid_coord [lat1, lon1, lat2, lon2]"
    unfolding list_ex_iff by blast
  then show ?thesis by (simp only: calculateDistance_def if_True)
qed

theorem calculateDistance_missing_or_NaN_witness:
  "Num NaN \<in> set [Num (Fin 1), Num NaN, Num (Fin 2), Num (Fin 3)]
   \<and> calculateDistance exact (Num (Fin 1)) (Num NaN) (Num (Fin 2)) (Num (Fin 3)) = None"
  using calculateDistance_missing_or_NaN
          [of "Num NaN" "Num (Fin 1)" "Num NaN" "Num (Fin 2)" "Num (Fin 3)" exact]
  by simp

text \<open>
  Claim C3: \<open>calculateDistance\<close> is symmetric in its two endpoints. This holds in every
  arithmetic in which multiplication commutes, negating a factor negates the product,
  \<open>x - y\<close> is the negation of \<open>y - x\<close>, halving commutes with negation and \<open>Math.sin\<close> is
  odd, as IEEE 754 arithmetic with round-to-nearest and the engine's sine are: the two
  half-angle sines change sign together and enter the formula as squares. It holds for
  all arguments, the rejected ones included.
\<close>

theorem calculateDistance_symmetric:
  assumes mul_commute: "\<And>x y. num_mul M x y = num_mul M y x"
    and mul_neg: "\<And>x y. num_mul M (neg x) y = neg (num_mul M x y)"
    and sub_swap: "\<And>x y. num_sub M x y = neg (num_sub M y x)"
    and half_neg: "\<And>x. num_div M (neg x) (Fin 2) = neg (num_div M x (Fin 2))"
    and sin_odd: "\<And>x. Math_sin M (neg x) = neg (Math_sin M x)"
  shows "calculateDistance M lat1 lon1 lat2 lon2 = calculateDistance M lat2 lon2 lat1 lon1"
proof -
  define hs where "hs x y = Math_sin M (num_div M (num_sub M x y) (Fin 2))" for x y
  have hs_swap: "hs x y = neg (hs y x)" for x y
    unfolding hs_def by (subst sub_swap) (simp only: half_neg sin_odd)
  have mul_neg_right: "num_mul M x (neg y) = neg (num_mul M x y)" for x y
    by (metis mul_commute mul_neg)
  have sq3: "num_mul M (num_mul M k (hs x y)) (hs x y)
             = num_mul M (num_mul M k (hs y x)) (hs y x)" for k x y
    by (subst hs_swap, subst (2) hs_swap) (simp only: mul_neg_right mul_neg neg_neg)
  have sq: "num_mul M (hs x y) (hs x y) = num_mul M (hs y x) (hs y x)" for x y
    by (subst hs_swap, subst (2) hs_swap) (simp only: mul_neg_right mul_neg neg_neg)
  have guard: "list_ex invalid_coord [lat1, lon1, lat2, lon2]
               = list_ex invalid_coord [lat2, lon2, lat1, lon1]"
    by auto
  show ?thesis
    unfolding calculateDistance_def Let_def guard hs_def[symmetric]
    by (simp only:
          sq[of "num_div M (num_mul M (ToNumber_arg lat2) (Math_PI M)) (Fin 180)"]
          sq3[of _ "num_div M (num_mul M (ToNumber_arg lon2) (Math_PI M)) (Fin 180)"]
          mul_commute[of "Math_cos M
             (num_div M (num_mul M (ToNumber_arg lat1) (Math_PI M)) (Fin 180))"])
qed

theorem calculateDistance_symmetric_witness:
  "calculateDistance exact (Num (Fin 51)) (Num (Fin 0)) (Num (Fin 48)) (Num (Fin 2))
   = calculateDistance exact (Num (Fin 48)) (Num (Fin 2)) (Num (Fin 51)) (Num (Fin 0))"
proof (rule calculateDistance_symmetric)
  show "num_mul exact x y = num_mul exact y x" for x y
    unfolding exact_def jsmath.select_convs by (rule exact_mul_commute)
  show "num_mul exact (neg x) y = neg (num_mul exact x y)" for x y
    unfolding exact_def jsmath.select_convs by (rule exact_mul_neg)
  show "num_sub exact x y = neg (num_sub exact y x)" for x y
    unfolding exact_def jsmath.select_convs by (rule exact_sub_swap)
  show "num_div exact (neg x) (Fin 2) = neg (num_div exact x (Fin 2))" for x
    unfolding exact_def jsmath.select_convs by (rule exact_half_neg)
  show "Math_sin exact (neg x) = neg (Math_sin exact x)" for x
    unfolding exact_def jsmath.select_convs by (rule exact_sin_odd)
qed

section \<open>Properties of the feeds\<close>

text \<open>
  Claim C4 says that the community feed answers a request without an authenticated
  viewer with the public reviews, each with \<open>isLiked = false\<close>. The handler checks
  \<open>req.isAuthenticated()\<close> first and answers 401: on the example database the request
  without a viewer gets the 401 message and not the list of the public reviews.
\<close>

theorem community_unauthenticated_counterexample:
  "community exact example_db None None None (Message 401 ''message'' ''Not authenticated'')
   \<and> \<not> community exact example_db None None None
         (Json 200 (map (formatReview exact None None) (community_select example_db None)))"
  by (simp add: community.simps isAuthenticated_def)

text \<open>
  Claim C4, amended: the community feed always answers; without an authenticated viewer
  the answer is 401, and for an authenticated viewer it is the list of exactly the
  reviews with \<open>isPublic = true\<close> (every review having its author's row), where
  \<open>isLiked\<close> holds exactly when a like row exists for the review and the viewer.
\<close>

theorem community_feed:
  assumes fk: "reviews_have_authors d"
  shows "(\<exists>resp. community M d viewer userLat userLng resp) \<and>
         (\<forall>resp. community M d viewer userLat userLng resp \<longrightarrow>
            (if viewer = None then resp = Message 401 ''message'' ''Not authenticated''
             else \<exists>body. resp = Json 200 body
                    \<and> row_id ` set body = review_id ` {r \<in> set (reviews d). isPublic r}
                    \<and> (\<forall>row\<in>set body. row_isLiked row \<longleftrightarrow>
                          truthy_id viewer \<and>
                          (\<exists>l\<in>set (reviewLikes d).
                              reviewId l = row_id row \<and> like_userId l = the viewer))))"
proof (intro conjI allI impI)
  show "\<exists>resp. community M d viewer userLat userLng resp"
  proof (cases "isAuthenticated viewer")
    case True
    then show ?thesis
      using community_200 [OF True orderBy_desc_sort] by blast
  next
    case False
    then show ?thesis using community_401 by blast
  qed
next
  fix resp
  assume "community M d viewer userLat userLng resp"
  then show "if viewer = None then resp = Message 401 ''message'' ''Not authenticated''
             else \<exists>body. resp = Json 200 body
                    \<and> row_id ` set body = review_id ` {r \<in> set (reviews d). isPublic r}
                    \<and> (\<forall>row\<in>set body. row_isLiked row \<longleftrightarrow>
                          truthy_id viewer \<and>
                          (\<exists>l\<in>set (reviewLikes d).
                              reviewId l = row_id row \<and> like_userId l = the viewer))"
  proof cases
    case community_401
    then show ?thesis by (simp add: isAuthenticated_def)
  next
    case (community_200 rows)
    have s: "set rows = set (community_select d viewer)"
      using community_200(3) by (rule orderBy_desc_set)
    have ids: "row_id ` set (map (formatReview M userLat userLng) rows)
               = review_id ` {r \<in> set (reviews d). isPublic r}"
      using community_ids [OF fk, of viewer] s by (simp add: image_image)
    have liked: "\<forall>row\<in>set (map (formatReview M userLat userLng) rows). row_isLiked row \<longleftrightarrow>
                          truthy_id viewer \<and>
                          (\<exists>l\<in>set (reviewLikes d).
                              reviewId l = row_id row \<and> like_userId l = the viewer)"
      using community_isLiked [of _ d viewer] s by auto
    show ?thesis
      using community_200(1,2) ids liked by (simp add: isAuthenticated_def)
  qed
qed

theorem community_feed_witness:
  "reviews_have_authors example_db
   \<and> (\<exists>body. community exact example_db (Some 2) None None (Json 200 body)
          \<and> row_id ` set body = {1, 2}
          \<and> map row_isLiked body = map (\<lambda>row. row_id row = 1) body)"
proof -
  have fk: "reviews_have_authors example_db"
    by (simp add: reviews_have_authors_def example_db_def review1_def review2_def review3_def)
  note th = community_feed [OF fk, of exact "Some 2" None None]
  from th obtain resp where r: "community exact example_db (Some 2) None None resp" by blast
  with th obtain body where b: "resp = Json 200 body"
     "row_id ` set body = review_id ` {r \<in> set (reviews example_db). isPublic r}"
     "\<forall>row\<in>set body. row_isLiked row \<longleftrightarrow> truthy_id (Some 2) \<and>
         (\<exists>l\<in>set (reviewLikes example_db). reviewId l = row_id row \<and> like_userId l = the (Some 2))"
    by fastforce
  have ids: "review_id ` {r \<in> set (reviews example_db). isPublic r} = {1, 2}"
    unfolding set_filter [symmetric]
    by (simp add: example_db_def review1_def review2_def review3_def)
  have "map row_isLiked body = map (\<lambda>row. row_id row = 1) body"
    using b(3) by (auto simp: example_db_def)
  with fk r b ids show ?thesis by auto
qed

text \<open>
  Claim C5: for an authenticated viewer the following feed always answers with a list,
  and every review in it is public and written by a user the viewer follows through a
  row of \<open>follows\<close>; no other review is in the list.
\<close>

theorem following_feed:
  assumes auth: "truthy_id viewer"
  shows "(\<exists>resp. following M d viewer userLat userLng resp) \<and>
         (\<forall>resp. following M d viewer userLat userLng resp \<longrightarrow>
            (\<exists>body. resp = Json 200 body \<and>
               (\<forall>row\<in>set body. \<exists>r\<in>set (reviews d).
                   review_id r = row_id row \<and> isPublic r \<and>
                   (\<exists>f\<in>set (follows d).
                       followerId f = the viewer \<and> followingId f = userId r))))"
proof (intro conjI allI impI)
  show "\<exists>resp. following M d viewer userLat userLng resp"
    using following_200 [OF auth orderBy_desc_sort] by blast
next
  fix resp
  assume "following M d viewer userLat userLng resp"
  then show "\<exists>body. resp = Json 200 body \<and>
               (\<forall>row\<in>set body. \<exists>r\<in>set (reviews d).
                   review_id r = row_id row \<and> isPublic r \<and>
                   (\<exists>f\<in>set (follows d).
                       followerId f = the viewer \<and> followingId f = userId r))"
  proof cases
    case following_401
    with auth show ?thesis by simp
  next
    case (following_200 rows)
    have s: "set rows = set (following_select d (the viewer))"
      using following_200(3) by (rule orderBy_desc_set)
    have "\<exists>r\<in>set (reviews d). review_id r = row_id row \<and> isPublic r \<and>
            (\<exists>f\<in>set (follows d). followerId f = the viewer \<and> followingId f = userId r)"
      if "row \<in> set rows" for row
      using that s following_select_sound [of row d "the viewer"] by simp
    then show ?thesis using following_200(1) by simp
  qed
qed

theorem following_feed_witness:
  "truthy_id (Some 2)
   \<and> (\<exists>body. following exact example_db (Some 2) None None (Json 200 body)
          \<and> set (map row_id body) \<subseteq> {1, 2})"
proof -
  have a: "truthy_id (Some 2)" by simp
  note th = following_feed [OF a, of exact example_db None None]
  from th obtain resp where r: "following exact example_db (Some 2) None None resp" by blast
  with th obtain body where b: "resp = Json 200 body"
     "\<forall>row\<in>set body. \<exists>r\<in>set (reviews example_db).
                   review_id r = row_id row \<and> isPublic r \<and>
                   (\<exists>f\<in>set (follows example_db).
                       followerId f = the (Some 2) \<and> followingId f = userId r)"
    by fastforce
  have "row_id row \<in> {1, 2}" if "row \<in> set body" for row
    using b(2) that by (fastforce simp: ex_defs)
  with a r b(1) show ?thesis by auto
qed

text \<open>
  Claim C6: for an authenticated viewer the group feed always answers; when the viewer
  has a membership row for the requested group the answer is the list of the reviews
  whose \<open>groupId\<close> is that group, whatever their \<open>isPublic\<close>, and otherwise it is 403
  with no review. The group id is one the integer column can hold (for any other the
  membership query fails and the answer is 500), and every review is taken to have its
  author's row (the foreign key).
\<close>

theorem group_reviews_gate:
  assumes auth: "truthy_id viewer" and fk: "reviews_have_authors d" and range: "int4 gid"
  shows "(\<exists>resp. group_reviews d viewer (Some gid) resp) \<and>
         (\<forall>resp. group_reviews d viewer (Some gid) resp \<longrightarrow>
            (if \<exists>m\<in>set (groupMembers d). member_groupId m = gid \<and> member_userId m = the viewer
             then \<exists>body. resp = Json 200 body
                    \<and> gr_id ` set body = review_id ` {r \<in> set (reviews d). groupId r = Some gid}
             else resp = Message 403 ''message'' ''Not a member of this group''))"
proof -
  have mem: "is_member d gid (the viewer) \<longleftrightarrow>
        (\<exists>m\<in>set (groupMembers d). member_groupId m = gid \<and> member_userId m = the viewer)"
    using range by (auto simp: is_member_def filter_empty_conv)
  show ?thesis
  proof (intro conjI allI impI)
    show "\<exists>resp. group_reviews d viewer (Some gid) resp"
    proof (cases "is_member d gid (the viewer)")
      case True
      then show ?thesis
        using group_200 [OF auth refl range True orderBy_desc_sort] by blast
    next
      case False
      then show ?thesis using group_403 [OF auth refl range False] by blast
    qed
  next
    fix resp
    assume "group_reviews d viewer (Some gid) resp"
    then show "if \<exists>m\<in>set (groupMembers d). member_groupId m = gid \<and> member_userId m = the viewer
             then \<exists>body. resp = Json 200 body
                    \<and> gr_id ` set body = review_id ` {r \<in> set (reviews d). groupId r = Some gid}
             else resp = Message 403 ''message'' ''Not a member of this group''"
    proof cases
      case group_401
      with auth show ?thesis by simp
    next
      case group_500_NaN
      then show ?thesis by simp
    next
      case (group_500_range g)
      with range show ?thesis by simp
    next
      case (group_403 g)
      then show ?thesis using mem by simp
    next
      case (group_200 g rows)
      then have "set rows = set (group_select d gid)"
        using orderBy_desc_set by blast
      then show ?thesis using group_200 mem group_ids [OF fk, of gid] by simp
    qed
  qed
qed

theorem group_reviews_gate_witness:
  "truthy_id (Some 1) \<and> truthy_id (Some 2) \<and> reviews_have_authors example_db \<and> int4 1
   \<and> (\<exists>body. group_reviews example_db (Some 1) (Some 1) (Json 200 body) \<and> gr_id ` set body = {3})
   \<and> group_reviews example_db (Some 2) (Some 1) (Message 403 ''message'' ''Not a member of this group'')"
proof -
  have a1: "truthy_id (Some 1)" and a2: "truthy_id (Some 2)" by simp_all
  have fk: "reviews_have_authors example_db"
    by (simp add: reviews_have_authors_def ex_defs)
  have i: "int4 1" by (simp add: int4_def)
  note t1 = group_reviews_gate [OF a1 fk i]
  note t2 = group_reviews_gate [OF a2 fk i]
  have ids: "review_id ` {r \<in> set (reviews example_db). groupId r = Some 1} = {3}"
    unfolding set_filter [symmetric] by (simp add: ex_defs)
  have m1: "\<exists>m\<in>set (groupMembers example_db). member_groupId m = 1 \<and> member_userId m = the (Some 1)"
    by (simp add: ex_defs)
  have m2: "\<not> (\<exists>m\<in>set (groupMembers example_db). member_groupId m = 1 \<and> member_userId m = the (Some 2))"
    by (simp add: ex_defs)
  from t1 obtain r1 where r1: "group_reviews example_db (Some 1) (Some 1) r1" by blast
  with t1 m1 ids obtain body where "r1 = Json 200 body" "gr_id ` set body = {3}"
    by (metis (no_types, lifting))
  moreover from t2 obtain r2 where r2: "group_reviews example_db (Some 2) (Some 1) r2" by blast
  with t2 m2 have "r2 = Message 403 ''message'' ''Not a member of this group''"
    by (metis (no_types, lifting))
  ultimately show ?thesis using a1 a2 fk i r1 r2 by blast
qed

text \<open>
  Claim C7 says that reviews with equal \<open>createdAt\<close> come in the order of their primary
  keys, so that the order of a feed is determined. The queries order by
  \<open>desc(reviews.createdAt)\<close> alone: on the example database, whose first two reviews
  have the same \<open>createdAt\<close>, the community feed may answer with review 2 before review
  1 as well as with review 1 before review 2.
\<close>

theorem community_ties_counterexample:
  "community exact example_db (Some 2) None None
     (Json 200 (map (formatReview exact None None)
        [feed_row review2 (Some ''ann'') (Some (None, None)) 0 False,
         feed_row review1 (Some ''ann'') (Some (None, None)) 1 True]))
   \<and> community exact example_db (Some 2) None None
     (Json 200 (map (formatReview exact None None)
        [feed_row review1 (Some ''ann'') (Some (None, None)) 1 True,
         feed_row review2 (Some ''ann'') (Some (None, None)) 0 False]))
   \<and> createdAt review1 = createdAt review2 \<and> review_id review1 < review_id review2"
proof -
  have a: "isAuthenticated (Some 2)" by (simp add: isAuthenticated_def)
  have o1: "orderBy_desc row_createdAt (community_select example_db (Some 2))
        [feed_row review2 (Some ''ann'') (Some (None, None)) 0 False,
         feed_row review1 (Some ''ann'') (Some (None, None)) 1 True]"
    by (simp add: community_select_example orderBy_desc_def feed_row_def review1_def review2_def)
  have o2: "orderBy_desc row_createdAt (community_select example_db (Some 2))
        [feed_row review1 (Some ''ann'') (Some (None, None)) 1 True,
         feed_row review2 (Some ''ann'') (Some (None, None)) 0 False]"
    by (simp add: community_select_example orderBy_desc_def feed_row_def review1_def review2_def)
  show ?thesis
    using community_200 [OF a o1, of exact None None] community_200 [OF a o2, of exact None None]
    by (simp add: review1_def review2_def)
qed

text \<open>
  Claim C7, amended: every list the community, following, place and group feeds answer
  with is ordered newest first, that is non-increasing in \<open>createdAt\<close>; the order among
  reviews with equal \<open>createdAt\<close> is left to the database.
\<close>

theorem feeds_newest_first:
  "(community M d viewer userLat userLng (Json st body) \<longrightarrow>
      sorted_wrt (\<lambda>x y. row_createdAt y \<le> row_createdAt x) body)
   \<and> (following M d viewer userLat userLng (Json st body) \<longrightarrow>
      sorted_wrt (\<lambda>x y. row_createdAt y \<le> row_createdAt x) body)
   \<and> (place M d viewer pid userLat userLng (Json st body) \<longrightarrow>
      sorted_wrt (\<lambda>x y. row_createdAt y \<le> row_createdAt x) body)
   \<and> (group_reviews d viewer gid (Json st gbody) \<longrightarrow>
      sorted_wrt (\<lambda>x y. gr_createdAt y \<le> gr_createdAt x) gbody)"
proof (intro conjI impI)
  assume "community M d viewer userLat userLng (Json st body)"
  then show "sorted_wrt (\<lambda>x y. row_createdAt y \<le> row_createdAt x) body"
    by cases (simp add: sorted_formatReview orderBy_desc_sorted)
next
  assume "following M d viewer userLat userLng (Json st body)"
  then show "sorted_wrt (\<lambda>x y. row_createdAt y \<le> row_createdAt x) body"
    by cases (simp add: sorted_formatReview orderBy_desc_sorted)
next
  assume "place M d viewer pid userLat userLng (Json st body)"
  then show "sorted_wrt (\<lambda>x y. row_createdAt y \<le> row_createdAt x) body"
    by cases (simp add: sorted_formatReview orderBy_desc_sorted)
next
  assume "group_reviews d viewer gid (Json st gbody)"
  then show "sorted_wrt (\<lambda>x y. gr_createdAt y \<le> gr_createdAt x) gbody"
    by cases (simp add: orderBy_desc_sorted)
qed

theorem feeds_newest_first_witness:
  "community exact example_db (Some 2) None None
     (Json 200 (map (formatReview exact None None) (community_select example_db (Some 2))))
   \<and> sorted_wrt (\<lambda>x y. row_createdAt y \<le> row_createdAt x)
        (map (formatReview exact None None) (community_select example_db (Some 2)))
   \<and> following exact example_db (Some 2) None None
     (Json 200 (map (formatReview exact None None) (following_select example_db 2)))
   \<and> sorted_wrt (\<lambda>x y. row_createdAt y \<le> row_createdAt x)
        (map (formatReview exact None None) (following_select example_db 2))
   \<and> place exact example_db None ''p1'' None None
     (Json 200 (map (formatReview exact None None) (place_select example_db None ''p1'')))
   \<and> sorted_wrt (\<lambda>x y. row_createdAt y \<le> row_createdAt x)
        (map (formatReview exact None None) (place_select example_db None ''p1''))
   \<and> group_reviews example_db (Some 1) (Some 1) (Json 200 (group_select example_db 1))
   \<and> sorted_wrt (\<lambda>x y. gr_createdAt y \<le> gr_createdAt x) (group_select example_db 1)"
proof -
  have c: "community exact example_db (Some 2) None None
     (Json 200 (map (formatReview exact None None) (community_select example_db (Some 2))))"
    by (rule community_200)
       (simp_all add: isAuthenticated_def orderBy_desc_def community_select_example
          feed_row_def review1_def review2_def)
  have f: "following exact example_db (Some 2) None None
     (Json 200 (map (formatReview exact None None) (following_select example_db 2)))"
    using following_200 [of "Some 2" example_db "following_select example_db 2" exact None None]
    by (simp add: orderBy_desc_def following_select_example feed_row_def review1_def review2_def)
  have p: "place exact example_db None ''p1'' None None
     (Json 200 (map (formatReview exact None None) (place_select example_db None ''p1'')))"
    by (rule place_200)
       (simp add: orderBy_desc_def place_select_example feed_row_def review1_def review3_def)
  have m: "is_member example_db 1 (the (Some 1))"
    by (simp add: is_member_def int4_def example_db_def)
  have o: "orderBy_desc gr_createdAt (group_select example_db 1) (group_select example_db 1)"
    by (simp add: orderBy_desc_def group_select_example)
  have g: "group_reviews example_db (Some 1) (Some 1) (Json 200 (group_select example_db 1))"
    using group_200 [of "Some 1" "Some 1" 1 example_db, OF _ _ _ m o]
    by (simp add: int4_def)
  note th_c = feeds_newest_first
    [of exact example_db "Some 2" None None 200
        "map (formatReview exact None None) (community_select example_db (Some 2))", THEN conjunct1]
  note th_f = feeds_newest_first
    [of exact example_db "Some 2" None None 200
        "map (formatReview exact None None) (following_select example_db 2)",
     THEN conjunct2, THEN conjunct1]
  note th_p = feeds_newest_first
    [of exact example_db None None None 200
        "map (formatReview exact None None) (place_select example_db None ''p1'')" "''p1''",
     THEN conjunct2, THEN conjunct2, THEN conjunct1]
  note th_g = feeds_newest_first
    [of exact example_db "Some 1" None None 200 _ _ "Some 1" "group_select example_db 1",
     THEN conjunct2, THEN conjunct2, THEN conjunct2]
  show ?thesis
    using c f p g th_c th_f th_p th_g by blast
qed

section \<open>Properties of the like handlers\<close>

text \<open>
  Claim C8: for an authenticated user who already likes a review, \<open>POST /reviews/:id/like\<close>
  answers 400 and leaves the database, and so the rows of \<open>review_likes\<close> and the like
  count, as they were; in particular the second of two such requests does, when the
  first one succeeded. \<open>DELETE /reviews/:id/like\<close> with no like row for the user and the
  review answers 204 and changes nothing. The review id is one the integer column can
  hold; for any other the query and the delete fail and the answer is 500.
\<close>

theorem like_twice_unlike_absent:
  assumes auth: "truthy_id viewer"
    and range: "int4 rid"
  shows "((\<exists>l\<in>set (reviewLikes d). reviewId l = rid \<and> like_userId l = the viewer) \<longrightarrow>
            like_review d viewer (Some rid) newId now
              = (Message 400 ''message'' ''Already liked this review'', d))
       \<and> (like_review d viewer (Some rid) newId now
              = (Message 201 ''message'' ''Review liked successfully'', d') \<longrightarrow>
            like_review d' viewer (Some rid) newId' now'
              = (Message 400 ''message'' ''Already liked this review'', d'))
       \<and> ((\<forall>l\<in>set (reviewLikes d). \<not> (reviewId l = rid \<and> like_userId l = the viewer)) \<longrightarrow>
            unlike_review d viewer (Some rid) = (NoContent 204, d))"
proof (intro conjI impI)
  have ex: "0 < length (existingLike d0 rid (the viewer)) \<longleftrightarrow>
            (\<exists>l\<in>set (reviewLikes d0). reviewId l = rid \<and> like_userId l = the viewer)" for d0
    by (auto simp: existingLike_def filter_empty_conv)
  {
    assume "\<exists>l\<in>set (reviewLikes d). reviewId l = rid \<and> like_userId l = the viewer"
    then show "like_review d viewer (Some rid) newId now
              = (Message 400 ''message'' ''Already liked this review'', d)"
      using auth range ex [of d] by (simp add: like_review_def)
  }
  {
    assume first: "like_review d viewer (Some rid) newId now
              = (Message 201 ''message'' ''Review liked successfully'', d')"
    then have "d' = d \<lparr> reviewLikes := reviewLikes d @
                     [\<lparr> like_id = newId, reviewId = rid, like_userId = the viewer,
                        like_createdAt = now \<rparr>] \<rparr>"
      using auth by (auto simp: like_review_def split: if_splits)
    then have "\<exists>l\<in>set (reviewLikes d'). reviewId l = rid \<and> like_userId l = the viewer"
      by simp
    then show "like_review d' viewer (Some rid) newId' now'
              = (Message 400 ''message'' ''Already liked this review'', d')"
      using auth range ex [of d'] by (simp add: like_review_def)
  }
  {
    assume "\<forall>l\<in>set (reviewLikes d). \<not> (reviewId l = rid \<and> like_userId l = the viewer)"
    then have "[l \<leftarrow> reviewLikes d. \<not> (reviewId l = rid \<and> like_userId l = the viewer)]
               = reviewLikes d"
      by (simp add: filter_id_conv)
    then show "unlike_review d viewer (Some rid) = (NoContent 204, d)"
      using auth range by (simp add: unlike_review_def)
  }
qed

theorem like_twice_unlike_absent_witness:
  "truthy_id (Some 2) \<and> int4 1 \<and> int4 2
   \<and> like_review example_db (Some 2) (Some 1) 2 200
       = (Message 400 ''message'' ''Already liked this review'', example_db)
   \<and> likes_count (snd (like_review example_db (Some 2) (Some 1) 2 200)) review1 = 1
   \<and> unlike_review example_db (Some 2) (Some 2) = (NoContent 204, example_db)"
proof -
  have a: "truthy_id (Some 2)" by simp
  have i1: "int4 1" and i2: "int4 2" by (simp_all add: int4_def)
  note th1 = like_twice_unlike_absent [OF a i1, of example_db]
  note th2 = like_twice_unlike_absent [OF a i2, of example_db]
  have l: "\<exists>l\<in>set (reviewLikes example_db). reviewId l = 1 \<and> like_userId l = the (Some 2)"
    by (simp add: example_db_def)
  have n: "\<forall>l\<in>set (reviewLikes example_db). \<not> (reviewId l = 2 \<and> like_userId l = the (Some 2))"
    by (simp add: example_db_def)
  have c: "likes_count example_db review1 = 1"
    by (simp add: likes_count_def ex_defs)
  from th1 [of 2 200] l have 1: "like_review example_db (Some 2) (Some 1) 2 200
       = (Message 400 ''message'' ''Already liked this review'', example_db)" by blast
  from th2 n have 2: "unlike_review example_db (Some 2) (Some 2) = (NoContent 204, example_db)"
    by blast
  show ?thesis using a i1 i2 1 2 c by simp
qed

section \<open>Properties of review creation\<close>

text \<open>
  Claim C9 says that \<open>POST /reviews\<close> answers 400 only when \<open>placeId\<close> or \<open>rating\<close> is
  missing, and that a request with both and no location creates the review. The handler
  passes the location through \<open>processLocation\<close> and answers 400 when the result is
  \<open>null\<close>: on the example database the request of user 1 with a place, a rating and no
  location gets 400 \<open>Invalid location data\<close> and no review is created.
\<close>

theorem post_review_without_location_counterexample:
  "post_review exact example_db (Some 1) body_without_location 4 200
     = (Message 400 ''error'' ''Invalid location data'', example_db)"
  by (simp add: post_review_def body_without_location_def processLocation_def)

text \<open>
  Claim C9, amended: \<open>POST /reviews\<close> by an authenticated user answers 400 when
  \<open>placeId\<close> or \<open>rating\<close> is missing; 403 when a \<open>groupId\<close> is given and the user is no
  member of the group; and 400 again when \<open>processLocation\<close> returns \<open>null\<close> for the
  location, as it does for an absent one. None of these creates a review. A request that
  passes the three checks is answered 201 and appends the review, public, with the
  processed location, when the database accepts the row: a fresh primary key, rows for
  the user and the group, ids and rating the integer columns can hold, and no zero
  character in the texts and the location. When the database refuses the row, or the
  \<open>groupId\<close> is one the membership query fails on, the answer is 500 and nothing is
  created.
\<close>

theorem post_review_checks:
  assumes auth: "truthy_id viewer"
  shows "(\<not> truthy_string (body_placeId body) \<or> \<not> truthy_id (body_rating body) \<longrightarrow>
            post_review M d viewer body newId now
              = (Message 400 ''error'' ''Missing required fields'', d))
       \<and> (truthy_string (body_placeId body) \<and> truthy_id (body_rating body)
          \<and> truthy_id (body_groupId body) \<and> \<not> int4 (the (body_groupId body)) \<longrightarrow>
            post_review M d viewer body newId now
              = (Message 500 ''error'' ''Failed to create review'', d))
       \<and> (truthy_string (body_placeId body) \<and> truthy_id (body_rating body)
          \<and> truthy_id (body_groupId body) \<and> int4 (the (body_groupId body))
          \<and> \<not> (\<exists>m\<in>set (groupMembers d).
                   member_groupId m = the (body_groupId body) \<and> member_userId m = the viewer) \<longrightarrow>
            post_review M d viewer body newId now
              = (Message 403 ''error'' ''Not a member of this group'', d))
       \<and> (truthy_string (body_placeId body) \<and> truthy_id (body_rating body)
          \<and> (truthy_id (body_groupId body) \<longrightarrow>
                int4 (the (body_groupId body)) \<and>
                (\<exists>m\<in>set (groupMembers d).
                   member_groupId m = the (body_groupId body) \<and> member_userId m = the viewer))
          \<and> processLocation M (body_location body) None None = None \<longrightarrow>
            post_review M d viewer body newId now
              = (Message 400 ''error'' ''Invalid location data'', d))
       \<and> (truthy_string (body_placeId body) \<and> truthy_id (body_rating body)
          \<and> (truthy_id (body_groupId body) \<longrightarrow>
                int4 (the (body_groupId body)) \<and>
                (\<exists>m\<in>set (groupMembers d).
                   member_groupId m = the (body_groupId body) \<and> member_userId m = the viewer))
          \<and> processLocation M (body_location body) None None = Some pl
          \<and> insert_review d (new_review (the viewer) body pl newId now) = None \<longrightarrow>
            post_review M d viewer body newId now
              = (Message 500 ''error'' ''Failed to create review'', d))
       \<and> (truthy_string (body_placeId body) \<and> truthy_id (body_rating body)
          \<and> (truthy_id (body_groupId body) \<longrightarrow>
                int4 (the (body_groupId body)) \<and>
                (\<exists>m\<in>set (groupMembers d).
                   member_groupId m = the (body_groupId body) \<and> member_userId m = the viewer)
                \<and> the (body_groupId body) \<in> group_id ` set (groups d))
          \<and> processLocation M (body_location body) None None = Some pl
          \<and> int4 newId \<and> newId \<notin> review_id ` set (reviews d)
          \<and> int4 (the viewer) \<and> the viewer \<in> user_id ` set (users d)
          \<and> int4 (the (body_rating body))
          \<and> text_ok (the (body_placeId body))
          \<and> (truthy_string (body_placeName body) \<longrightarrow> text_ok (the (body_placeName body)))
          \<and> (truthy_string (body_comment body) \<longrightarrow> text_ok (the (body_comment body)))
          \<and> jsonb_ok (json_location pl) \<longrightarrow>
            (\<exists>created.
               post_review M d viewer body newId now
                 = (Json 201 created, d \<lparr> reviews := reviews d @ [created_review created] \<rparr>)
               \<and> review_id (created_review created) = newId
               \<and> userId (created_review created) = the viewer
               \<and> placeId (created_review created) = the (body_placeId body)
               \<and> rating (created_review created) = the (body_rating body)
               \<and> isPublic (created_review created)
               \<and> location (created_review created) = json_location pl
               \<and> created_location created = pl))
       \<and> processLocation M JUndefined None None = None
       \<and> processLocation M JNull None None = None"
proof -
  let ?g = "the (body_groupId body)"
  let ?present = "truthy_string (body_placeId body) \<and> truthy_id (body_rating body)"
  let ?member = "\<exists>m\<in>set (groupMembers d). member_groupId m = ?g \<and> member_userId m = the viewer"
  have mem: "is_member d ?g (the viewer) \<longleftrightarrow> int4 ?g \<and> ?member"
    by (auto simp: is_member_def filter_empty_conv)
  have c1: "post_review M d viewer body newId now
              = (Message 400 ''error'' ''Missing required fields'', d)"
    if "\<not> truthy_string (body_placeId body) \<or> \<not> truthy_id (body_rating body)"
    using that auth by (auto simp: post_review_def)
  have c2: "post_review M d viewer body newId now
              = (Message 500 ''error'' ''Failed to create review'', d)"
    if "?present" "truthy_id (body_groupId body)" "\<not> int4 ?g"
    using that auth by (simp add: post_review_def)
  have c3: "post_review M d viewer body newId now
              = (Message 403 ''error'' ''Not a member of this group'', d)"
    if "?present" "truthy_id (body_groupId body)" "int4 ?g" "\<not> ?member"
    using that auth mem by (simp add: post_review_def)
  have pass: "post_review M d viewer body newId now
        = (case processLocation M (body_location body) None None of
           None \<Rightarrow> (Message 400 ''error'' ''Invalid location data'', d)
         | Some processedLocation \<Rightarrow>
             (let newReview = new_review (the viewer) body processedLocation newId now
              in (case insert_review d newReview of
                    None \<Rightarrow> (Message 500 ''error'' ''Failed to create review'', d)
                  | Some d' \<Rightarrow>
                      (case find (\<lambda>u. user_id u = the viewer) (users d') of
                         None \<Rightarrow> (Message 500 ''error'' ''Failed to create review'', d')
                       | Some u \<Rightarrow>
                           (Json 201
                              \<lparr> created_review = newReview,
                                created_username = username u,
                                created_location = processedLocation,
                                created_likes = 0, created_isLiked = False \<rparr>,
                            d')))))"
    if "?present" "truthy_id (body_groupId body) \<longrightarrow> int4 ?g \<and> ?member"
    using that auth mem
    by (cases "truthy_id (body_groupId body)") (simp_all add: post_review_def)
  have c4: "post_review M d viewer body newId now
              = (Message 400 ''error'' ''Invalid location data'', d)"
    if "?present" "truthy_id (body_groupId body) \<longrightarrow> int4 ?g \<and> ?member"
       "processLocation M (body_location body) None None = None"
    using pass [OF that(1,2)] that(3) by simp
  have c5: "post_review M d viewer body newId now
              = (Message 500 ''error'' ''Failed to create review'', d)"
    if "?present" "truthy_id (body_groupId body) \<longrightarrow> int4 ?g \<and> ?member"
       "processLocation M (body_location body) None None = Some pl"
       "insert_review d (new_review (the viewer) body pl newId now) = None"
    using pass [OF that(1,2)] that(3,4) by simp
  have c6: "\<exists>created.
               post_review M d viewer body newId now
                 = (Json 201 created, d \<lparr> reviews := reviews d @ [created_review created] \<rparr>)
               \<and> review_id (created_review created) = newId
               \<and> userId (created_review created) = the viewer
               \<and> placeId (created_review created) = the (body_placeId body)
               \<and> rating (created_review created) = the (body_rating body)
               \<and> isPublic (created_review created)
               \<and> location (created_review created) = json_location pl
               \<and> created_location created = pl"
    if p: "?present"
       and g: "truthy_id (body_groupId body) \<longrightarrow>
                int4 ?g \<and> ?member \<and> ?g \<in> group_id ` set (groups d)"
       and l: "processLocation M (body_location body) None None = Some pl"
       and fresh: "int4 newId" "newId \<notin> review_id ` set (reviews d)"
       and usr: "int4 (the viewer)" "the viewer \<in> user_id ` set (users d)"
       and vals: "int4 (the (body_rating body))" "text_ok (the (body_placeId body))"
         "truthy_string (body_placeName body) \<longrightarrow> text_ok (the (body_placeName body))"
         "truthy_string (body_comment body) \<longrightarrow> text_ok (the (body_comment body))"
         "jsonb_ok (json_location pl)"
  proof -
    let ?r = "new_review (the viewer) body pl newId now"
    from usr obtain u where u: "find (\<lambda>u. user_id u = the viewer) (users d) = Some u"
      by (cases "find (\<lambda>u. user_id u = the viewer) (users d)") (auto simp: find_None_iff)
    have ins: "insert_review d ?r = Some (d \<lparr> reviews := reviews d @ [?r] \<rparr>)"
      using g fresh usr vals
      by (auto simp: insert_review_def new_review_def text_ok_def)
    from g have g': "truthy_id (body_groupId body) \<longrightarrow> int4 ?g \<and> ?member" by blast
    have "post_review M d viewer body newId now
            = (Json 201 \<lparr> created_review = ?r, created_username = username u,
                        created_location = pl, created_likes = 0, created_isLiked = False \<rparr>,
               d \<lparr> reviews := reviews d @ [?r] \<rparr>)"
      using pass [OF p g'] l ins u by (simp add: Let_def)
    then show ?thesis by (simp add: new_review_def)
  qed
  show ?thesis
    using c1 c2 c3 c4 c5 c6 processLocation_absent by blast
qed

theorem post_review_checks_witness:
  "truthy_id (Some 1)
   \<and> post_review exact example_db (Some 1) body_without_location 4 200
       = (Message 400 ''error'' ''Invalid location data'', example_db)
   \<and> fst (post_review exact example_db (Some 1)
            (body_without_location \<lparr> body_placeId := None \<rparr>) 4 200)
       = Message 400 ''error'' ''Missing required fields''
   \<and> fst (post_review exact example_db (Some 2)
            (body_without_location \<lparr> body_groupId := Some 1 \<rparr>) 4 200)
       = Message 403 ''error'' ''Not a member of this group''
   \<and> map review_id (reviews (snd (post_review exact example_db (Some 1)
            (body_without_location \<lparr> body_location := paris_location \<rparr>) 4 200)))
       = [1, 2, 3, 4]"
proof -
  have a: "truthy_id (Some 1)" and a2: "truthy_id (Some 2)" by simp_all
  note t1 = post_review_checks [OF a, of body_without_location exact example_db 4 200]
  note t2 = post_review_checks
    [OF a, of "body_without_location \<lparr> body_placeId := None \<rparr>" exact example_db 4 200]
  note t3 = post_review_checks
    [OF a2, of "body_without_location \<lparr> body_groupId := Some 1 \<rparr>" exact example_db 4 200]
  note t4 = post_review_checks
    [OF a, of "body_without_location \<lparr> body_location := paris_location \<rparr>" exact example_db
        4 200 "\<lparr> coordinates = \<lparr> lat = Fin 48, lng = Fin 2 \<rparr>,
              formatted_address = JStr ''Paris'', distance = None \<rparr>"]
  have 1: "post_review exact example_db (Some 1) body_without_location 4 200
       = (Message 400 ''error'' ''Invalid location data'', example_db)"
    using t1 by (simp add: body_without_location_def)
  have 2: "post_review exact example_db (Some 1)
            (body_without_location \<lparr> body_placeId := None \<rparr>) 4 200
       = (Message 400 ''error'' ''Missing required fields'', example_db)"
    using t2 by simp
  have 3: "post_review exact example_db (Some 2)
            (body_without_location \<lparr> body_groupId := Some 1 \<rparr>) 4 200
       = (Message 403 ''error'' ''Not a member of this group'', example_db)"
    using t3 by (simp add: body_without_location_def example_db_def int4_def)
  let ?b = "body_without_location \<lparr> body_location := paris_location \<rparr>"
  let ?pl = "\<lparr> coordinates = \<lparr> lat = Fin 48, lng = Fin 2 \<rparr>,
              formatted_address = JStr ''Paris'', distance = None \<rparr>"
  have prem: "truthy_string (body_placeId ?b) \<and> truthy_id (body_rating ?b)
          \<and> (truthy_id (body_groupId ?b) \<longrightarrow>
                int4 (the (body_groupId ?b)) \<and>
                (\<exists>m\<in>set (groupMembers example_db).
                   member_groupId m = the (body_groupId ?b) \<and> member_userId m = the (Some 1))
                \<and> the (body_groupId ?b) \<in> group_id ` set (groups example_db))
          \<and> processLocation exact (body_location ?b) None None = Some ?pl
          \<and> int4 4 \<and> 4 \<notin> review_id ` set (reviews example_db)
          \<and> int4 (the (Some 1)) \<and> the (Some 1) \<in> user_id ` set (users example_db)
          \<and> int4 (the (body_rating ?b))
          \<and> text_ok (the (body_placeId ?b))
          \<and> (truthy_string (body_placeName ?b) \<longrightarrow> text_ok (the (body_placeName ?b)))
          \<and> (truthy_string (body_comment ?b) \<longrightarrow> text_ok (the (body_comment ?b)))
          \<and> jsonb_ok (json_location ?pl)"
    by (simp add: body_without_location_def processLocation_paris ex_defs int4_def
          text_ok_def json_location_def)
  from t4 [THEN conjunct2, THEN conjunct2, THEN conjunct2, THEN conjunct2, THEN conjunct2,
           THEN conjunct1, THEN mp, OF prem]
  obtain created where cr:
    "post_review exact example_db (Some 1) ?b 4 200
       = (Json 201 created,
          example_db \<lparr> reviews := reviews example_db @ [created_review created] \<rparr>)"
    "review_id (created_review created) = 4"
    by blast
  have "map review_id (reviews (snd (post_review exact example_db (Some 1) ?b 4 200)))
          = map review_id (reviews example_db) @ [4]"
    unfolding cr(1) using cr(2) by simp
  then have "map review_id (reviews (snd (post_review exact example_db (Some 1) ?b 4 200)))
       = [1, 2, 3, 4]"
    by (simp add: ex_defs)
  with a 1 2 3 show ?thesis by simp
qed



end
